theory Spec2Isabelle
  imports Main
begin

section \<open>JavaScript strings\<close>

text \<open>
  A JavaScript string is modelled as a \<^typ>\<open>string\<close>, one \<^typ>\<open>char\<close> per
  code unit below 256. The helpers below are the string methods the frontend calls.
\<close>

text \<open>\<^verbatim>\<open>String.prototype.trim\<close>: the white space and line terminators below 256.\<close>

definition is_ws :: "char \<Rightarrow> bool" where
  "is_ws c = (c \<in> set [CHR 0x09, CHR 0x0A, CHR 0x0B, CHR 0x0C, CHR 0x0D, CHR 0x20, CHR 0xA0])"

definition trim :: "string \<Rightarrow> string" where
  "trim s = rev (dropWhile is_ws (rev (dropWhile is_ws s)))"

text \<open>\<^verbatim>\<open>s.startsWith(p)\<close>.\<close>

definition startsWith :: "string \<Rightarrow> string \<Rightarrow> bool" where
  "startsWith s p = (take (length p) s = p)"

text \<open>\<^verbatim>\<open>s.substr(start, len)\<close> for non-negative arguments.\<close>

definition substr :: "string \<Rightarrow> nat \<Rightarrow> nat \<Rightarrow> string" where
  "substr s start len = take len (drop start s)"

text \<open>A non-negative integer inside a template literal: its decimal digits.\<close>

definition digit :: "nat \<Rightarrow> char" where
  "digit d = char_of (48 + d)"

fun dec :: "nat \<Rightarrow> string" where
  "dec n = (if n < 10 then [digit n] else dec (n div 10) @ [digit (n mod 10)])"

declare dec.simps [simp del]

section \<open>Session identity: \<^verbatim>\<open>frontend/lib/chatApi.js\<close>\<close>

datatype js_error =
    SecurityError
  | QuotaExceededError
  | FetchFailed
  | JsonSyntaxError
  | HttpError

text \<open>
  \<^verbatim>\<open>localStorage\<close>: the stored items, and whether the browser lets the page read and
  write them. A read of blocked storage raises \<^verbatim>\<open>SecurityError\<close>; a write that
  the browser refuses raises \<^verbatim>\<open>QuotaExceededError\<close>.
\<close>

record storage =
  items :: "string \<rightharpoonup> string"
  readable :: bool
  writable :: bool

definition getItem :: "storage \<Rightarrow> string \<Rightarrow> js_error + string option" where
  "getItem st k = (if readable st then Inr (items st k) else Inl SecurityError)"

definition setItem :: "storage \<Rightarrow> string \<Rightarrow> string \<Rightarrow> js_error + storage" where
  "setItem st k v =
     (if \<not> readable st then Inl SecurityError
      else if \<not> writable st then Inl QuotaExceededError
      else Inr (st\<lparr>items := (items st)(k \<mapsto> v)\<rparr>))"

text \<open>
  What a call reads from its surroundings: whether \<^verbatim>\<open>window\<close> is defined, the value
  of \<^verbatim>\<open>Date.now()\<close> and the string \<^verbatim>\<open>Math.random().toString(36)\<close>.
\<close>

record env =
  window_defined :: bool
  now :: nat
  random36 :: string

text \<open>
  \<^verbatim>\<open>`session_${Date.now()}_${Math.random().toString(36).substr(2, 9)}`\<close>
\<close>

definition generateSessionId :: "nat \<Rightarrow> string \<Rightarrow> string" where
  "generateSessionId t r = ''session_'' @ dec t @ ''_'' @ substr r 2 9"

text \<open>
  \<^verbatim>\<open>getSessionId(productId)\<close>. The result is the identifier and the storage the
  call leaves, or the exception that reaches the caller (the function has no
  \<^verbatim>\<open>try\<close>). \<^verbatim>\<open>!sessionId\<close> holds for \<^verbatim>\<open>null\<close> and for the empty string.
\<close>

definition getSessionId :: "env \<Rightarrow> storage \<Rightarrow> string \<Rightarrow> js_error + (string \<times> storage)" where
  "getSessionId e st productId =
     (if window_defined e then
        (let key = ''chat_session_'' @ productId in
         case getItem st key of
           Inl err \<Rightarrow> Inl err
         | Inr stored \<Rightarrow>
             (if stored = None \<or> stored = Some [] then
                (let sessionId = generateSessionId (now e) (random36 e) in
                 case setItem st key sessionId of
                   Inl err \<Rightarrow> Inl err
                 | Inr st' \<Rightarrow> Inr (sessionId, st'))
              else Inr (the stored, st)))
      else Inr (generateSessionId (now e) (random36 e), st))"

text \<open>
  The session effect of \<^verbatim>\<open>ProductDetailPage.jsx\<close>, up to \<^verbatim>\<open>setSessionId(sid)\<close>.
  \<^verbatim>\<open>uuid\<close> is the value of \<^verbatim>\<open>crypto.randomUUID()\<close>. The result is \<^verbatim>\<open>None\<close> when the
  effect returns at \<^verbatim>\<open>if (!modelId) return\<close>.
\<close>

definition initSession :: "string \<Rightarrow> storage \<Rightarrow> string \<Rightarrow> js_error + (string option \<times> storage)" where
  "initSession uuid st modelId =
     (if modelId = [] then Inr (None, st)
      else
        (let key = ''session_'' @ modelId in
         case getItem st key of
           Inl err \<Rightarrow> Inl err
         | Inr stored \<Rightarrow>
             (if stored = None \<or> stored = Some [] then
                (case setItem st key uuid of
                   Inl err \<Rightarrow> Inl err
                 | Inr st' \<Rightarrow> Inr (Some uuid, st'))
              else Inr (stored, st))))"

text \<open>
  An identifier generator has at least \<open>n\<close> bits of randomness when, as its random input
  varies, it can return at least \<open>2 ^ n\<close> different identifiers.
\<close>

definition random_bits :: "nat \<Rightarrow> ('r \<Rightarrow> string) \<Rightarrow> bool" where
  "random_bits n gen = (\<exists>S. S \<subseteq> range gen \<and> finite S \<and> 2 ^ n \<le> card S)"

section \<open>Requests: \<^verbatim>\<open>frontend/src/services/api.js\<close> and \<^verbatim>\<open>frontend/lib/chatApi.js\<close>\<close>

datatype mode = PRE_PURCHASE | POST_PURCHASE

fun mode_name :: "mode \<Rightarrow> string" where
  "mode_name PRE_PURCHASE = ''PRE_PURCHASE''"
| "mode_name POST_PURCHASE = ''POST_PURCHASE''"

record js_file =
  file_name :: string
  file_type :: string
  file_size :: nat

text \<open>A \<^verbatim>\<open>FormData\<close> body: the appended fields, in order.\<close>

datatype form_value = Text string | Blob js_file

type_synonym form_data = "(string \<times> form_value) list"

text \<open>The \<^verbatim>\<open>imageFiles\<close> argument: an array, a single file, or nothing.\<close>

datatype image_arg = Files "js_file list" | OneFile js_file | NoFiles

text \<open>
  The body \<^verbatim>\<open>api.sendMessage\<close> posts to \<^verbatim>\<open>/chat\<close>. \<^verbatim>\<open>if (sessionId)\<close> holds for a
  non-empty string.
\<close>

definition sendMessage :: "string \<Rightarrow> string \<Rightarrow> mode \<Rightarrow> image_arg \<Rightarrow> string option \<Rightarrow> form_data" where
  "sendMessage message modelId md imageFiles sid =
     (let images = (case imageFiles of Files fs \<Rightarrow> fs | OneFile f \<Rightarrow> [f] | NoFiles \<Rightarrow> []) in
      if length images > 0 then
        [(''message'', Text message), (''model_id'', Text modelId), (''mode'', Text (mode_name md))]
        @ (case sid of None \<Rightarrow> [] | Some s \<Rightarrow> if s = [] then [] else [(''session_id'', Text s)])
        @ map (\<lambda>f. (''images'', Blob f)) images
      else
        [(''message'', Text message), (''model_id'', Text modelId), (''mode'', Text (mode_name md))]
        @ (case sid of None \<Rightarrow> [] | Some s \<Rightarrow> if s = [] then [] else [(''conversation_id'', Text s)]))"

text \<open>The body \<^verbatim>\<open>sendChatMessage\<close> posts to \<^verbatim>\<open>/chat\<close>.\<close>

definition sendChatMessage :: "string \<Rightarrow> string \<Rightarrow> string \<Rightarrow> string \<Rightarrow> mode \<Rightarrow> js_file list \<Rightarrow> form_data" where
  "sendChatMessage productId message sid language md images =
     [(''model_id'', Text productId), (''message'', Text message), (''conversation_id'', Text sid),
      (''mode'', Text (mode_name md)), (''language'', Text language)]
     @ map (\<lambda>image. (''images'', Blob image)) images"

definition field_names :: "form_data \<Rightarrow> string list" where
  "field_names form = map fst form"


text \<open>
  How a \<^verbatim>\<open>fetch\<close> settles: the promise rejects (the backend cannot be reached), or a
  response arrives with its \<^verbatim>\<open>ok\<close> flag and a body that \<^verbatim>\<open>response.json()\<close> parses or
  not.
\<close>

datatype 'a json = Malformed | Parsed 'a

datatype 'a fetch_result = Unreachable | Response bool "'a json"

text \<open>What \<^verbatim>\<open>await api.sendMessage(...)\<close> gives: the parsed reply, or the error thrown.\<close>

definition sendMessage_reply :: "'a fetch_result \<Rightarrow> js_error + 'a" where
  "sendMessage_reply fr =
     (case fr of
        Unreachable \<Rightarrow> Inl FetchFailed
      | Response ok body \<Rightarrow>
          (if \<not> ok then Inl HttpError
           else case body of Malformed \<Rightarrow> Inl JsonSyntaxError | Parsed r \<Rightarrow> Inr r))"

section \<open>Conversation history\<close>

record chat_message =
  role :: string
  content :: string
  msg_previews :: "string list"

text \<open>The history object; \<^verbatim>\<open>messages\<close> may be missing from what the backend sends.\<close>

record history =
  session_id :: string
  history_messages :: "chat_message list option"

text \<open>\<^verbatim>\<open>api.getConversationHistory(sessionId)\<close>.\<close>

definition getConversationHistory :: "string \<Rightarrow> history fetch_result \<Rightarrow> js_error + history" where
  "getConversationHistory sid fr =
     (case fr of
        Unreachable \<Rightarrow> Inl FetchFailed
      | Response ok body \<Rightarrow>
          (if \<not> ok then Inr \<lparr>session_id = sid, history_messages = Some []\<rparr>
           else case body of Malformed \<Rightarrow> Inl JsonSyntaxError | Parsed h \<Rightarrow> Inr h))"

section \<open>The product page: \<^verbatim>\<open>frontend/src/pages/ProductDetailPage.jsx\<close>\<close>

record page =
  modelId :: string
  mode :: mode
  messages :: "chat_message list"
  inputMessage :: string
  isSending :: bool
  sessionId :: "string option"
  isLoadingHistory :: bool
  selectedImages :: "js_file list"
  imagePreviews :: "string list"
  uploadError :: "string option"

definition MAX_IMAGES :: nat where
  "MAX_IMAGES = 3"

text \<open>
  \<^verbatim>\<open>loadConversationHistory(sid)\<close>: the \<^verbatim>\<open>catch\<close> logs the error and goes on, and
  \<^verbatim>\<open>finally\<close> clears the loading flag.
\<close>

definition loadConversationHistory :: "string \<Rightarrow> history fetch_result \<Rightarrow> page \<Rightarrow> page" where
  "loadConversationHistory sid fr st =
     (let st1 = st\<lparr>isLoadingHistory := True\<rparr> in
      case getConversationHistory sid fr of
        Inl err \<Rightarrow> st1\<lparr>isLoadingHistory := False\<rparr>
      | Inr h \<Rightarrow>
          (case history_messages h of
             None \<Rightarrow> st1\<lparr>isLoadingHistory := False\<rparr>
           | Some ms \<Rightarrow>
               if length ms > 0 then st1\<lparr>messages := ms, isLoadingHistory := False\<rparr>
               else st1\<lparr>isLoadingHistory := False\<rparr>))"

text \<open>Characters above 255 in the page's literals, as their UTF-8 bytes.\<close>

definition camera :: string where
  "camera = [CHR 0xF0, CHR 0x9F, CHR 0x93, CHR 0xB7]"

definition cross_mark :: string where
  "cross_mark = [CHR 0xE2, CHR 0x9D, CHR 0x8C]"

text \<open>
  \<^verbatim>\<open>handleSendMessage\<close> up to the \<^verbatim>\<open>await\<close>: the new state and the request started, if
  one is.
\<close>

definition handleSendMessage :: "page \<Rightarrow> page \<times> form_data option" where
  "handleSendMessage st =
     (if (trim (inputMessage st) = [] \<and> length (selectedImages st) = 0) \<or> isSending st
      then (st, None)
      else
        (let userMessage = trim (inputMessage st);
             imagesToSend = selectedImages st;
             imagePreviewsToStore = imagePreviews st
         in (st\<lparr>inputMessage := [], selectedImages := [], imagePreviews := [],
                uploadError := None,
                messages := messages st @
                  [\<lparr>role = ''user'',
                    content = (if userMessage \<noteq> [] then userMessage
                               else camera @ '' ['' @ dec (length imagesToSend) @ '' image(s)]''),
                    msg_previews = imagePreviewsToStore\<rparr>],
                isSending := True\<rparr>,
             Some (sendMessage userMessage (modelId st) (mode st) (Files imagesToSend)
                     (sessionId st)))))"

text \<open>\<^verbatim>\<open>handleSendMessage\<close> after the \<^verbatim>\<open>await\<close>: reply or apology, then \<^verbatim>\<open>finally\<close>.\<close>

definition handleSendMessage_settled :: "string fetch_result \<Rightarrow> page \<Rightarrow> page" where
  "handleSendMessage_settled fr st =
     (case sendMessage_reply fr of
        Inr response \<Rightarrow>
          st\<lparr>messages := messages st @ [\<lparr>role = ''assistant'', content = response, msg_previews = []\<rparr>],
             isSending := False\<rparr>
      | Inl err \<Rightarrow>
          st\<lparr>messages := messages st @
               [\<lparr>role = ''assistant'',
                 content = cross_mark @ '' Sorry, I encountered an error. Please try again.'',
                 msg_previews = []\<rparr>],
             isSending := False\<rparr>)"

text \<open>The \<^verbatim>\<open>disabled\<close> attribute of the send button.\<close>

definition send_disabled :: "page \<Rightarrow> bool" where
  "send_disabled st = (isSending st \<or> (trim (inputMessage st) = [] \<and> length (selectedImages st) = 0))"

text \<open>The validation loop of \<^verbatim>\<open>handleImageSelect\<close>, carrying \<^verbatim>\<open>validFiles\<close> and \<^verbatim>\<open>uploadError\<close>.\<close>

fun validate :: "js_file list \<Rightarrow> js_file list \<Rightarrow> string option \<Rightarrow> js_file list \<times> string option" where
  "validate [] validFiles err = (validFiles, err)"
| "validate (f # fs) validFiles err =
     (if \<not> startsWith (file_type f) ''image/''
      then validate fs validFiles (Some ''Only images are allowed (PNG, JPG, JPEG, WEBP)'')
      else if file_size f > 5 * 1024 * 1024
      then validate fs validFiles (Some ''Each file must be less than 5MB'')
      else validate fs (validFiles @ [f]) err)"

text \<open>
  \<^verbatim>\<open>handleImageSelect\<close> up to \<^verbatim>\<open>Promise.all\<close>: the new state, and the \<^verbatim>\<open>validFiles\<close> whose
  previews are being read (\<^verbatim>\<open>None\<close> when the handler returned before).
\<close>

definition handleImageSelect_sync :: "js_file list \<Rightarrow> page \<Rightarrow> page \<times> js_file list option" where
  "handleImageSelect_sync files st =
     (if length files = 0 then (st, None)
      else
        (let remainingSlots = int MAX_IMAGES - int (length (selectedImages st)) in
         if remainingSlots \<le> 0
         then (st\<lparr>uploadError := Some (''Maximum '' @ dec MAX_IMAGES @ '' images allowed'')\<rparr>, None)
         else
           (let filesToAdd = take (nat remainingSlots) files;
                (validFiles, err) = validate filesToAdd [] (uploadError st)
            in (st\<lparr>uploadError := err\<rparr>, Some validFiles))))"

text \<open>
  The \<^verbatim>\<open>then\<close> callback, run on the state of the moment the previews are ready;
  \<^verbatim>\<open>readAsDataURL\<close> gives each file's preview.
\<close>

definition handleImageSelect_then :: "(js_file \<Rightarrow> string) \<Rightarrow> js_file list \<Rightarrow> page \<Rightarrow> page" where
  "handleImageSelect_then readAsDataURL validFiles st =
     st\<lparr>selectedImages := selectedImages st @ validFiles,
        imagePreviews := imagePreviews st @ map readAsDataURL validFiles,
        uploadError := None\<rparr>"

text \<open>A selection whose previews are ready before anything else happens.\<close>

definition handleImageSelect :: "(js_file \<Rightarrow> string) \<Rightarrow> js_file list \<Rightarrow> page \<Rightarrow> page" where
  "handleImageSelect readAsDataURL files st =
     (case handleImageSelect_sync files st of
        (st', None) \<Rightarrow> st'
      | (st', Some validFiles) \<Rightarrow> handleImageSelect_then readAsDataURL validFiles st')"

text \<open>\<^verbatim>\<open>prev.filter((_, i) => i !== index)\<close>\<close>

definition filter_index :: "nat \<Rightarrow> 'a list \<Rightarrow> 'a list" where
  "filter_index index xs = map snd (filter (\<lambda>(i, x). i \<noteq> index) (enumerate 0 xs))"

definition handleRemoveImage :: "nat \<Rightarrow> page \<Rightarrow> page" where
  "handleRemoveImage index st =
     st\<lparr>selectedImages := filter_index index (selectedImages st),
        imagePreviews := filter_index index (imagePreviews st),
        uploadError := None\<rparr>"

definition handleModeSwitch :: "mode \<Rightarrow> page \<Rightarrow> page" where
  "handleModeSwitch newMode st = (if newMode = mode st then st else st\<lparr>mode := newMode\<rparr>)"

text \<open>
  The page with its chat requests: those awaiting a reply and all those started, oldest
  first. An event is one thing the user or the network does.
\<close>

record page_sys =
  ui :: page
  in_flight :: "form_data list"
  issued :: "form_data list"

datatype page_event =
    TypeText string
  | SelectFiles "js_file list"
  | RemoveImage nat
  | SwitchMode mode
  | PressEnter
  | ClickSend
  | Reply "string fetch_result"

definition start_send :: "page_sys \<Rightarrow> page_sys" where
  "start_send s =
     (case handleSendMessage (ui s) of
        (st', None) \<Rightarrow> s\<lparr>ui := st'\<rparr>
      | (st', Some req) \<Rightarrow> s\<lparr>ui := st', in_flight := in_flight s @ [req], issued := issued s @ [req]\<rparr>)"

fun page_step :: "(js_file \<Rightarrow> string) \<Rightarrow> page_sys \<Rightarrow> page_event \<Rightarrow> page_sys" where
  "page_step rd s (TypeText t) = s\<lparr>ui := (ui s)\<lparr>inputMessage := t\<rparr>\<rparr>"
| "page_step rd s (SelectFiles fs) = s\<lparr>ui := handleImageSelect rd fs (ui s)\<rparr>"
| "page_step rd s (RemoveImage i) = s\<lparr>ui := handleRemoveImage i (ui s)\<rparr>"
| "page_step rd s (SwitchMode m) = s\<lparr>ui := handleModeSwitch m (ui s)\<rparr>"
| "page_step rd s PressEnter = start_send s"
| "page_step rd s ClickSend = (if send_disabled (ui s) then s else start_send s)"
| "page_step rd s (Reply fr) =
     (case in_flight s of
        [] \<Rightarrow> s
      | req # rest \<Rightarrow> s\<lparr>ui := handleSendMessage_settled fr (ui s), in_flight := rest\<rparr>)"

definition page_run :: "(js_file \<Rightarrow> string) \<Rightarrow> page_sys \<Rightarrow> page_event list \<Rightarrow> page_sys" where
  "page_run rd s evs = foldl (page_step rd) s evs"

text \<open>The page once mounted for a product, with its session identifier.\<close>

definition page_mounted :: "string \<Rightarrow> string option \<Rightarrow> page_sys" where
  "page_mounted m sid =
     \<lparr>ui = \<lparr>modelId = m, mode = PRE_PURCHASE, messages = [], inputMessage = [], isSending = False,
             sessionId = sid, isLoadingHistory = True, selectedImages = [], imagePreviews = [],
             uploadError = None\<rparr>,
      in_flight = [], issued = []\<rparr>"


section \<open>Room images: \<^verbatim>\<open>frontend/src/components/ImageUpload.jsx\<close>\<close>





section \<open>The chat widget: \<^verbatim>\<open>frontend/components/chat\<close>\<close>

record chat_input =
  ci_message :: string
  selectedImage :: "js_file option"

text \<open>\<^verbatim>\<open>ChatInput.handleSubmit\<close>: the new input state and the argument of \<^verbatim>\<open>onSend\<close>, if called.\<close>

definition handleSubmit :: "chat_input \<Rightarrow> chat_input \<times> (string \<times> js_file option) option" where
  "handleSubmit ci =
     (if trim (ci_message ci) = [] \<and> selectedImage ci = None then (ci, None)
      else (\<lparr>ci_message = [], selectedImage = None\<rparr>,
            Some (trim (ci_message ci), selectedImage ci)))"

text \<open>\<^verbatim>\<open>ChatInput.handleImageSelect\<close> on \<^verbatim>\<open>e.target.files?.[0]\<close>.\<close>

definition chat_input_handleImageSelect :: "js_file option \<Rightarrow> chat_input \<Rightarrow> chat_input" where
  "chat_input_handleImageSelect picked ci =
     (case picked of
        None \<Rightarrow> ci
      | Some f \<Rightarrow> if startsWith (file_type f) ''image/'' then ci\<lparr>selectedImage := Some f\<rparr> else ci)"

text \<open>The \<^verbatim>\<open>disabled\<close> attribute of the submit button, given the \<^verbatim>\<open>disabled\<close> property.\<close>

definition submit_disabled :: "bool \<Rightarrow> chat_input \<Rightarrow> bool" where
  "submit_disabled disabled ci = (disabled \<or> (trim (ci_message ci) = [] \<and> selectedImage ci = None))"

record widget_message =
  wm_id :: string
  wm_text :: string
  wm_isUser :: bool
  wm_timestamp :: nat

record widget =
  product_id :: string
  language :: string
  w_mode :: mode
  w_messages :: "widget_message list"
  isLoading :: bool
  w_sessionId :: string

record chat_reply =
  reply_response :: "string option"
  reply_message :: "string option"

text \<open>
  The widget's \<^verbatim>\<open>handleSendMessage({ message, image })\<close> up to the \<^verbatim>\<open>await\<close>, at clock
  value \<open>t\<close>.
\<close>

definition widget_handleSendMessage ::
    "nat \<Rightarrow> string \<times> js_file option \<Rightarrow> widget \<Rightarrow> widget \<times> form_data option" where
  "widget_handleSendMessage t arg w =
     (case arg of (message, img) \<Rightarrow>
        if trim message = [] \<and> img = None then (w, None)
        else
          (w\<lparr>w_messages := w_messages w @
                [\<lparr>wm_id = dec t, wm_text = message, wm_isUser = True, wm_timestamp = t\<rparr>],
             isLoading := True\<rparr>,
           Some (sendChatMessage (product_id w) message (w_sessionId w) (language w) (w_mode w)
                   (case img of Some f \<Rightarrow> [f] | None \<Rightarrow> []))))"

text \<open>
  After the \<^verbatim>\<open>await\<close>, at clock value \<open>t\<close>:
  \<^verbatim>\<open>response.response || response.message || 'I received your message.'\<close>, or the
  translated error text, then \<^verbatim>\<open>finally\<close>.
\<close>

definition truthy :: "string option \<Rightarrow> bool" where
  "truthy v = (case v of None \<Rightarrow> False | Some s \<Rightarrow> s \<noteq> [])"

definition widget_handleSendMessage_settled :: "string \<Rightarrow> nat \<Rightarrow> chat_reply fetch_result \<Rightarrow> widget \<Rightarrow> widget" where
  "widget_handleSendMessage_settled chat_error t fr w =
     (case sendMessage_reply fr of
        Inr response \<Rightarrow>
          w\<lparr>w_messages := w_messages w @
               [\<lparr>wm_id = dec (t + 1),
                 wm_text = (if truthy (reply_response response) then the (reply_response response)
                            else if truthy (reply_message response) then the (reply_message response)
                            else ''I received your message.''),
                 wm_isUser = False, wm_timestamp = t\<rparr>],
            isLoading := False\<rparr>
      | Inl err \<Rightarrow>
          w\<lparr>w_messages := w_messages w @
               [\<lparr>wm_id = dec (t + 1), wm_text = chat_error, wm_isUser = False, wm_timestamp = t\<rparr>],
            isLoading := False\<rparr>)"

text \<open>
  The widget with its input and its chat requests. \<^verbatim>\<open>ChatInput\<close> is rendered with
  \<^verbatim>\<open>disabled={isLoading}\<close>: a disabled text area takes no key, a disabled button no click.
\<close>

record widget_sys =
  wui :: widget
  winput :: chat_input
  w_in_flight :: "form_data list"
  w_issued :: "form_data list"

datatype widget_event =
    WType string
  | WPick "js_file option"
  | WClearImage
  | WSetMode mode
  | WEnter nat
  | WClick nat
  | WReply nat "chat_reply fetch_result"

definition widget_submit :: "nat \<Rightarrow> widget_sys \<Rightarrow> widget_sys" where
  "widget_submit t s =
     (case handleSubmit (winput s) of
        (ci, None) \<Rightarrow> s\<lparr>winput := ci\<rparr>
      | (ci, Some arg) \<Rightarrow>
          (case widget_handleSendMessage t arg (wui s) of
             (w, None) \<Rightarrow> s\<lparr>wui := w, winput := ci\<rparr>
           | (w, Some req) \<Rightarrow>
               s\<lparr>wui := w, winput := ci, w_in_flight := w_in_flight s @ [req],
                 w_issued := w_issued s @ [req]\<rparr>))"

fun widget_step :: "string \<Rightarrow> widget_sys \<Rightarrow> widget_event \<Rightarrow> widget_sys" where
  "widget_step chat_error s (WType m) =
     (if isLoading (wui s) then s else s\<lparr>winput := (winput s)\<lparr>ci_message := m\<rparr>\<rparr>)"
| "widget_step chat_error s (WPick picked) = s\<lparr>winput := chat_input_handleImageSelect picked (winput s)\<rparr>"
| "widget_step chat_error s WClearImage = s\<lparr>winput := (winput s)\<lparr>selectedImage := None\<rparr>\<rparr>"
| "widget_step chat_error s (WSetMode m) = s\<lparr>wui := (wui s)\<lparr>w_mode := m\<rparr>\<rparr>"
| "widget_step chat_error s (WEnter t) = (if isLoading (wui s) then s else widget_submit t s)"
| "widget_step chat_error s (WClick t) =
     (if submit_disabled (isLoading (wui s)) (winput s) then s else widget_submit t s)"
| "widget_step chat_error s (WReply t fr) =
     (case w_in_flight s of
        [] \<Rightarrow> s
      | req # rest \<Rightarrow>
          s\<lparr>wui := widget_handleSendMessage_settled chat_error t fr (wui s), w_in_flight := rest\<rparr>)"

definition widget_run :: "string \<Rightarrow> widget_sys \<Rightarrow> widget_event list \<Rightarrow> widget_sys" where
  "widget_run chat_error s evs = foldl (widget_step chat_error) s evs"

definition widget_mounted :: "string \<Rightarrow> string \<Rightarrow> widget_sys" where
  "widget_mounted p sid =
     \<lparr>wui = \<lparr>product_id = p, language = ''en'', w_mode = PRE_PURCHASE, w_messages = [],
              isLoading = False, w_sessionId = sid\<rparr>,
      winput = \<lparr>ci_message = [], selectedImage = None\<rparr>,
      w_in_flight = [], w_issued = []\<rparr>"


section \<open>Leaving and reopening the product page\<close>

text \<open>
  Mounting the page for a product: the session effect reads or creates the identifier,
  and every other piece of state starts from its \<^verbatim>\<open>useState\<close> value.
\<close>

definition open_page :: "string \<Rightarrow> storage \<Rightarrow> string \<Rightarrow> js_error + (page_sys \<times> storage)" where
  "open_page uuid st m =
     (case initSession uuid st m of
        Inl err \<Rightarrow> Inl err
      | Inr (sid, st') \<Rightarrow> Inr (page_mounted m sid, st'))"

text \<open>
  A browser tab on one product: the storage, the page as mounted now, and the chat
  requests of earlier mounts that still await their reply. The page has no cleanup and
  cancels no \<^verbatim>\<open>fetch\<close>: when the user leaves it and opens the product again, its pending
  requests stay pending and the new mount knows nothing of them. A reply to such a
  request finds its component unmounted and changes nothing.
\<close>

record session_sys =
  store :: storage
  mounted :: page_sys
  abandoned :: "form_data list"

datatype session_event = OnPage page_event | Reopen string | AbandonedReply

fun session_step :: "(js_file \<Rightarrow> string) \<Rightarrow> session_sys \<Rightarrow> session_event \<Rightarrow> js_error + session_sys" where
  "session_step rd s (OnPage ev) = Inr (s\<lparr>mounted := page_step rd (mounted s) ev\<rparr>)"
| "session_step rd s (Reopen uuid) =
     (case open_page uuid (store s) (modelId (ui (mounted s))) of
        Inl err \<Rightarrow> Inl err
      | Inr (p, st') \<Rightarrow>
          Inr \<lparr>store = st', mounted = p, abandoned = abandoned s @ in_flight (mounted s)\<rparr>)"
| "session_step rd s AbandonedReply =
     (case abandoned s of [] \<Rightarrow> Inr s | req # rest \<Rightarrow> Inr (s\<lparr>abandoned := rest\<rparr>))"

fun session_run :: "(js_file \<Rightarrow> string) \<Rightarrow> session_sys \<Rightarrow> session_event list \<Rightarrow> js_error + session_sys" where
  "session_run rd s [] = Inr s"
| "session_run rd s (ev # evs) =
     (case session_step rd s ev of Inl err \<Rightarrow> Inl err | Inr s' \<Rightarrow> session_run rd s' evs)"

definition session_opened :: "string \<Rightarrow> storage \<Rightarrow> string \<Rightarrow> js_error + session_sys" where
  "session_opened uuid st m =
     (case open_page uuid st m of
        Inl err \<Rightarrow> Inl err
      | Inr (p, st') \<Rightarrow> Inr \<lparr>store = st', mounted = p, abandoned = []\<rparr>)"

text \<open>All chat requests of the tab that await a reply, oldest first.\<close>

definition pending :: "session_sys \<Rightarrow> form_data list" where
  "pending s = abandoned s @ in_flight (mounted s)"

section \<open>Properties of states\<close>


text \<open>At most one request awaits its reply, and the page knows when one does.\<close>

definition one_in_flight :: "page_sys \<Rightarrow> bool" where
  "one_in_flight s = (length (in_flight s) \<le> 1 \<and> (isSending (ui s) \<or> in_flight s = []))"

definition widget_one_in_flight :: "widget_sys \<Rightarrow> bool" where
  "widget_one_in_flight s = (length (w_in_flight s) \<le> 1 \<and> (isLoading (wui s) \<or> w_in_flight s = []))"


section \<open>Facts about the identifier\<close>

lemma generateSessionId_nonempty: "generateSessionId t r \<noteq> []"
  by (simp add: generateSessionId_def)

lemma getItem_after_setItem:
  "setItem st k v = Inr st' \<Longrightarrow> getItem st' k = Inr (Some v)"
  by (auto simp: setItem_def getItem_def split: if_splits)

lemma of_char_digit: "d < 10 \<Longrightarrow> (of_char (digit d) :: nat) = 48 + d"
  by (simp add: digit_def)

lemma digit_inj:
  assumes "a < 10" and "b < 10" and "digit a = digit b"
  shows "a = b"
proof -
  have "48 + a = (of_char (digit a) :: nat)" using assms(1) by (simp add: of_char_digit)
  also have "\<dots> = of_char (digit b)" by (simp only: assms(3))
  also have "\<dots> = 48 + b" using assms(2) by (simp add: of_char_digit)
  finally show ?thesis by simp
qed

lemma digit_not_sep: "d < 10 \<Longrightarrow> digit d \<noteq> CHR ''_''"
  using of_char_digit [of d] by auto

lemma dec_nonempty: "dec n \<noteq> []"
  by (subst dec.simps) simp

lemma dec_no_sep: "CHR ''_'' \<notin> set (dec n)"
proof (induction n rule: dec.induct)
  case (1 n)
  show ?case
  proof (cases "n < 10")
    case True
    then show ?thesis using digit_not_sep [of n] by (subst dec.simps) auto
  next
    case False
    with 1 show ?thesis using digit_not_sep [of "n mod 10"] by (subst dec.simps) auto
  qed
qed

lemma dec_inj: "dec a = dec b \<Longrightarrow> a = b"
proof (induction a arbitrary: b rule: dec.induct)
  case (1 a)
  show ?case
  proof (cases "a < 10")
    case True
    note a = this
    show ?thesis
    proof (cases "b < 10")
      case True
      with a 1(2) show ?thesis by (simp add: dec.simps [of a] dec.simps [of b] digit_inj)
    next
      case False
      with a 1(2) dec_nonempty [of "b div 10"] show ?thesis
        by (simp add: dec.simps [of a] dec.simps [of b])
    qed
  next
    case False
    note a = this
    show ?thesis
    proof (cases "b < 10")
      case True
      with a 1(2) dec_nonempty [of "a div 10"] show ?thesis
        by (simp add: dec.simps [of a] dec.simps [of b])
    next
      case False
      with a 1(2) have "dec (a div 10) = dec (b div 10)" and "digit (a mod 10) = digit (b mod 10)"
        by (simp_all add: dec.simps [of a] dec.simps [of b])
      with 1(1) [OF a] have "a div 10 = b div 10" and "a mod 10 = b mod 10"
        by (auto intro: digit_inj)
      then show ?thesis by (metis div_mult_mod_eq)
    qed
  qed
qed

lemma takeWhile_sep: "c \<notin> set xs \<Longrightarrow> takeWhile (\<lambda>x. x \<noteq> c) (xs @ c # ys) = xs"
  by (induction xs) auto

lemma sep_split:
  assumes "xs @ c # ys = xs' @ c # ys'" and "c \<notin> set xs" and "c \<notin> set xs'"
  shows "xs = xs' \<and> ys = ys'"
proof -
  have "xs = takeWhile (\<lambda>x. x \<noteq> c) (xs @ c # ys)"
    by (rule takeWhile_sep [OF assms(2), symmetric])
  also have "\<dots> = takeWhile (\<lambda>x. x \<noteq> c) (xs' @ c # ys')"
    by (simp only: assms(1))
  also have "\<dots> = xs'"
    by (rule takeWhile_sep [OF assms(3)])
  finally have "xs = xs'" .
  with assms(1) show ?thesis by simp
qed

lemma generateSessionId_eq_iff:
  "generateSessionId t1 r1 = generateSessionId t2 r2 \<longleftrightarrow> t1 = t2 \<and> substr r1 2 9 = substr r2 2 9"
proof
  assume "generateSessionId t1 r1 = generateSessionId t2 r2"
  then have "dec t1 @ CHR ''_'' # substr r1 2 9 = dec t2 @ CHR ''_'' # substr r2 2 9"
    by (simp add: generateSessionId_def)
  from sep_split [OF this dec_no_sep dec_no_sep] show "t1 = t2 \<and> substr r1 2 9 = substr r2 2 9"
    by (auto dest: dec_inj)
next
  assume "t1 = t2 \<and> substr r1 2 9 = substr r2 2 9"
  then show "generateSessionId t1 r1 = generateSessionId t2 r2"
    by (simp add: generateSessionId_def)
qed

lemma sum_powers_256: "(\<Sum>i\<le>9. (256::nat) ^ i) < 2 ^ 73"
proof -
  have "{..9::nat} = set [0..<10]" by auto
  then have "(\<Sum>i\<le>9. (256::nat) ^ i) = sum_list (map (\<lambda>i. 256 ^ i) [0..<10])"
    by (simp only: sum_list_distinct_conv_sum_set [OF distinct_upt])
  also have "\<dots> < 2 ^ 73" by (simp add: upt_rec)
  finally show ?thesis .
qed

lemma substr_len: "length (substr r s n) \<le> n"
  by (simp add: substr_def)

lemma short_strings: "finite {xs::string. length xs \<le> 9} \<and> card {xs::string. length xs \<le> 9} < 2 ^ 73"
proof -
  have eq: "{xs::string. length xs \<le> 9} = {xs. set xs \<subseteq> UNIV \<and> length xs \<le> 9}" by simp
  have "finite {xs::string. set xs \<subseteq> UNIV \<and> length xs \<le> 9}"
    by (rule finite_lists_length_le) simp
  moreover have "card {xs::string. set xs \<subseteq> UNIV \<and> length xs \<le> 9} = (\<Sum>i\<le>9. 256 ^ i)"
    using card_lists_length_le [of "UNIV :: char set" 9] by (simp add: card_UNIV_char)
  ultimately show ?thesis using sum_powers_256 by (simp only: eq) 
qed

lemma generateSessionId_range:
  "finite (range (generateSessionId t)) \<and> card (range (generateSessionId t)) < 2 ^ 73"
proof -
  let ?S = "{xs::string. length xs \<le> 9}"
  let ?f = "\<lambda>s. ''session_'' @ dec t @ ''_'' @ s"
  have sub: "range (generateSessionId t) \<subseteq> ?f ` ?S"
    by (auto simp: generateSessionId_def substr_len)
  have fin: "finite (?f ` ?S)" using short_strings by simp
  have "card (range (generateSessionId t)) \<le> card (?f ` ?S)"
    by (rule card_mono [OF fin sub])
  also have "\<dots> \<le> card ?S" using short_strings by (simp add: card_image_le)
  also have "\<dots> < 2 ^ 73" using short_strings by simp
  finally show ?thesis using finite_subset [OF sub fin] by simp
qed

lemma not_random_bits:
  assumes "finite (range gen)" and "card (range gen) < 2 ^ n"
  shows "\<not> random_bits n gen"
proof
  assume "random_bits n gen"
  then obtain S where "S \<subseteq> range gen" and "2 ^ n \<le> card S"
    by (auto simp: random_bits_def)
  with card_mono [OF assms(1), of S] assms(2) show False by simp
qed

lemma pow_73_122: "(2::nat) ^ 73 \<le> 2 ^ 122"
  by (rule power_increasing) simp_all

text \<open>
  C2. In a browser (\<^verbatim>\<open>window\<close> defined), when a call of \<^verbatim>\<open>getSessionId(p)\<close>
  returns an identifier, the next call for the same product identifier on the storage
  the first call left returns the same identifier and leaves the storage as it is,
  whatever the clock and the random number generator give the second call.
\<close>

theorem getSessionId_idempotent:
  assumes "window_defined e1" and "window_defined e2"
    and "getSessionId e1 st p = Inr (sid, st')"
  shows "getSessionId e2 st' p = Inr (sid, st')"
proof (cases "getItem st (''chat_session_'' @ p)")
  case (Inl err)
  with assms show ?thesis by (simp add: getSessionId_def)
next
  case (Inr stored)
  show ?thesis
  proof (cases "stored = None \<or> stored = Some []")
    case True
    with assms Inr have set: "setItem st (''chat_session_'' @ p) sid = Inr st'"
      and sid: "sid = generateSessionId (now e1) (random36 e1)"
      by (auto simp: getSessionId_def Let_def split: sum.splits)
    from getItem_after_setItem [OF set] sid generateSessionId_nonempty assms(2)
    show ?thesis by (simp add: getSessionId_def)
  next
    case False
    with assms Inr have "st' = st" and "stored = Some sid"
      by (auto simp: getSessionId_def)
    with Inr False assms(2) show ?thesis by (auto simp: getSessionId_def)
  qed
qed

text \<open>A run of C2: the first call creates the identifier, the second finds it.\<close>

theorem getSessionId_idempotent_witness:
  "window_defined \<lparr>window_defined = True, now = 7, random36 = ''0.k3jx''\<rparr>
   \<and> getSessionId \<lparr>window_defined = True, now = 7, random36 = ''0.k3jx''\<rparr>
         \<lparr>items = Map.empty, readable = True, writable = True\<rparr> ''P1''
       = Inr (generateSessionId 7 ''0.k3jx'',
              \<lparr>items = [''chat_session_P1'' \<mapsto> generateSessionId 7 ''0.k3jx''],
               readable = True, writable = True\<rparr>)
   \<and> getSessionId \<lparr>window_defined = True, now = 8, random36 = ''0.zz''\<rparr>
         \<lparr>items = [''chat_session_P1'' \<mapsto> generateSessionId 7 ''0.k3jx''],
          readable = True, writable = True\<rparr> ''P1''
       = Inr (generateSessionId 7 ''0.k3jx'',
              \<lparr>items = [''chat_session_P1'' \<mapsto> generateSessionId 7 ''0.k3jx''],
               readable = True, writable = True\<rparr>)"
  using getSessionId_idempotent [of "\<lparr>window_defined = True, now = 7, random36 = ''0.k3jx''\<rparr>"
      "\<lparr>window_defined = True, now = 8, random36 = ''0.zz''\<rparr>"
      "\<lparr>items = Map.empty, readable = True, writable = True\<rparr>" "''P1''"
      "generateSessionId 7 ''0.k3jx''"
      "\<lparr>items = [''chat_session_P1'' \<mapsto> generateSessionId 7 ''0.k3jx''], readable = True, writable = True\<rparr>"]
  by (simp add: getSessionId_def getItem_def setItem_def Let_def)

text \<open>
  C1, as the claim states it, fails on \<^verbatim>\<open>generateSessionId\<close>: at a given clock value the
  identifier varies only in the nine characters kept from the random string, so it
  cannot take \<open>2 ^ 122\<close> different values.
\<close>

theorem generateSessionId_bits_counterexample:
  "\<not> random_bits 122 (generateSessionId 1700000000000)"
proof (rule not_random_bits)
  show "finite (range (generateSessionId 1700000000000))"
    using generateSessionId_range by blast
  have "card (range (generateSessionId 1700000000000)) < 2 ^ 73"
    using generateSessionId_range by blast
  from this pow_73_122 show "card (range (generateSessionId 1700000000000)) < 2 ^ 122"
    by (rule less_le_trans)
qed

text \<open>
  C1, amended. In a browser with working storage and nothing (or the empty string)
  stored for the product, \<^verbatim>\<open>getSessionId\<close> returns a newly generated identifier and
  has stored it under \<^verbatim>\<open>chat_session_<productId>\<close>; the product page's effect, for a
  non-empty model identifier, returns the value of \<^verbatim>\<open>crypto.randomUUID()\<close> and has
  stored it under \<^verbatim>\<open>session_<modelId>\<close>. The identifier of \<^verbatim>\<open>generateSessionId\<close> has
  fewer than 73 bits of randomness at any clock value.
\<close>

theorem session_creation:
  "(window_defined e \<and> readable st \<and> writable st
      \<and> (items st (''chat_session_'' @ p) = None \<or> items st (''chat_session_'' @ p) = Some [])
    \<longrightarrow> getSessionId e st p =
          Inr (generateSessionId (now e) (random36 e),
               st\<lparr>items := (items st)(''chat_session_'' @ p \<mapsto> generateSessionId (now e) (random36 e))\<rparr>))
   \<and> (m \<noteq> [] \<and> readable st \<and> writable st
      \<and> (items st (''session_'' @ m) = None \<or> items st (''session_'' @ m) = Some [])
    \<longrightarrow> initSession uuid st m = Inr (Some uuid, st\<lparr>items := (items st)(''session_'' @ m \<mapsto> uuid)\<rparr>))
   \<and> \<not> random_bits 73 (generateSessionId t)"
proof (intro conjI impI)
  assume "window_defined e \<and> readable st \<and> writable st
      \<and> (items st (''chat_session_'' @ p) = None \<or> items st (''chat_session_'' @ p) = Some [])"
  then show "getSessionId e st p =
          Inr (generateSessionId (now e) (random36 e),
               st\<lparr>items := (items st)(''chat_session_'' @ p \<mapsto> generateSessionId (now e) (random36 e))\<rparr>)"
    by (auto simp: getSessionId_def getItem_def setItem_def Let_def)
next
  assume "m \<noteq> [] \<and> readable st \<and> writable st
      \<and> (items st (''session_'' @ m) = None \<or> items st (''session_'' @ m) = Some [])"
  then show "initSession uuid st m = Inr (Some uuid, st\<lparr>items := (items st)(''session_'' @ m \<mapsto> uuid)\<rparr>)"
    by (auto simp: initSession_def getItem_def setItem_def Let_def)
next
  show "\<not> random_bits 73 (generateSessionId t)"
    using generateSessionId_range [of t] by (intro not_random_bits) blast+
qed

theorem session_creation_witness:
  "getSessionId \<lparr>window_defined = True, now = 7, random36 = ''0.k3jx''\<rparr>
      \<lparr>items = Map.empty, readable = True, writable = True\<rparr> ''P1''
     = Inr (generateSessionId 7 ''0.k3jx'',
            \<lparr>items = [''chat_session_P1'' \<mapsto> generateSessionId 7 ''0.k3jx''],
             readable = True, writable = True\<rparr>)
   \<and> initSession ''1b4e28ba-2fa1-41d2-883f-0016d3cca427''
        \<lparr>items = Map.empty, readable = True, writable = True\<rparr> ''WM-100''
     = Inr (Some ''1b4e28ba-2fa1-41d2-883f-0016d3cca427'',
            \<lparr>items = [''session_WM-100'' \<mapsto> ''1b4e28ba-2fa1-41d2-883f-0016d3cca427''],
             readable = True, writable = True\<rparr>)
   \<and> \<not> random_bits 73 (generateSessionId 7)"
  using session_creation [of "\<lparr>window_defined = True, now = 7, random36 = ''0.k3jx''\<rparr>"
      "\<lparr>items = Map.empty, readable = True, writable = True\<rparr>" "''P1''" "''WM-100''"
      "''1b4e28ba-2fa1-41d2-883f-0016d3cca427''" 7]
  by simp

text \<open>
  The product page's effect is idempotent in the same way, a UUID being non-empty.
\<close>

lemma initSession_idempotent:
  assumes "uuid \<noteq> []" and "initSession uuid st m = Inr (Some sid, st')"
  shows "initSession uuid' st' m = Inr (Some sid, st')"
  using assms
  by (auto simp: initSession_def getItem_def setItem_def Let_def split: if_splits sum.splits)

text \<open>
  C3, as the claim states it, fails in a browser whose storage is blocked: the read
  raises, and \<^verbatim>\<open>getSessionId\<close> passes the exception to its caller.
\<close>

theorem getSessionId_throws_counterexample:
  "getSessionId \<lparr>window_defined = True, now = 7, random36 = ''0.k3jx''\<rparr>
     \<lparr>items = Map.empty, readable = False, writable = False\<rparr> ''P1'' = Inl SecurityError"
  by (simp add: getSessionId_def getItem_def)

text \<open>
  C3, amended. When there is no browser (\<^verbatim>\<open>window\<close> undefined), \<^verbatim>\<open>getSessionId\<close>
  returns a generated identifier, touches no storage and does not throw, whatever the
  state of the storage. In a browser, storage that cannot be read makes the call throw
  \<^verbatim>\<open>SecurityError\<close>, and storage that cannot be written makes the call that has to
  create an identifier throw \<^verbatim>\<open>QuotaExceededError\<close>.
\<close>

theorem getSessionId_storage_unavailable:
  "(\<not> window_defined e \<longrightarrow>
      getSessionId e st p = Inr (generateSessionId (now e) (random36 e), st))
   \<and> (window_defined e \<and> \<not> readable st \<longrightarrow> getSessionId e st p = Inl SecurityError)
   \<and> (window_defined e \<and> readable st \<and> \<not> writable st
        \<and> (items st (''chat_session_'' @ p) = None \<or> items st (''chat_session_'' @ p) = Some [])
      \<longrightarrow> getSessionId e st p = Inl QuotaExceededError)"
  by (auto simp: getSessionId_def getItem_def setItem_def Let_def)

theorem getSessionId_storage_unavailable_witness:
  "getSessionId \<lparr>window_defined = False, now = 7, random36 = ''0.k3jx''\<rparr>
      \<lparr>items = Map.empty, readable = False, writable = False\<rparr> ''P1''
     = Inr (generateSessionId 7 ''0.k3jx'', \<lparr>items = Map.empty, readable = False, writable = False\<rparr>)
   \<and> getSessionId \<lparr>window_defined = True, now = 7, random36 = ''0.k3jx''\<rparr>
      \<lparr>items = Map.empty, readable = False, writable = False\<rparr> ''P1'' = Inl SecurityError
   \<and> getSessionId \<lparr>window_defined = True, now = 7, random36 = ''0.k3jx''\<rparr>
      \<lparr>items = Map.empty, readable = True, writable = False\<rparr> ''P1'' = Inl QuotaExceededError"
  using getSessionId_storage_unavailable [of "\<lparr>window_defined = False, now = 7, random36 = ''0.k3jx''\<rparr>"
      "\<lparr>items = Map.empty, readable = False, writable = False\<rparr>" "''P1''"]
    getSessionId_storage_unavailable [of "\<lparr>window_defined = True, now = 7, random36 = ''0.k3jx''\<rparr>"
      "\<lparr>items = Map.empty, readable = False, writable = False\<rparr>" "''P1''"]
    getSessionId_storage_unavailable [of "\<lparr>window_defined = True, now = 7, random36 = ''0.k3jx''\<rparr>"
      "\<lparr>items = Map.empty, readable = True, writable = False\<rparr>" "''P1''"]
  by simp

text \<open>
  C10, as the claim states it, fails when two calls outside a browser read the same
  clock value and random strings that agree on the nine characters kept: they return
  the same identifier.
\<close>

theorem getSessionId_no_window_same_counterexample:
  "''0.4fzzzxjylrx'' \<noteq> ''0.4fzzzxjyl9p''
   \<and> getSessionId \<lparr>window_defined = False, now = 1700000000000, random36 = ''0.4fzzzxjylrx''\<rparr>
         \<lparr>items = Map.empty, readable = True, writable = True\<rparr> ''P1''
     = getSessionId \<lparr>window_defined = False, now = 1700000000000, random36 = ''0.4fzzzxjyl9p''\<rparr>
         \<lparr>items = Map.empty, readable = True, writable = True\<rparr> ''P1''"
  by (simp add: getSessionId_def generateSessionId_def substr_def)

text \<open>
  C10, amended. Outside a browser, \<^verbatim>\<open>getSessionId\<close> returns a newly generated
  identifier on every call and persists nothing; two calls return different
  identifiers exactly when their clock values differ or the nine characters kept from
  their random strings differ.
\<close>

theorem getSessionId_no_window:
  assumes "\<not> window_defined e1" and "\<not> window_defined e2"
  shows "getSessionId e1 st p = Inr (generateSessionId (now e1) (random36 e1), st)
    \<and> getSessionId e2 st p = Inr (generateSessionId (now e2) (random36 e2), st)
    \<and> (getSessionId e1 st p = getSessionId e2 st p
         \<longleftrightarrow> now e1 = now e2 \<and> substr (random36 e1) 2 9 = substr (random36 e2) 2 9)"
  using assms by (simp add: getSessionId_def generateSessionId_eq_iff)

theorem getSessionId_no_window_witness:
  "getSessionId \<lparr>window_defined = False, now = 7, random36 = ''0.k3jx''\<rparr>
      \<lparr>items = Map.empty, readable = True, writable = True\<rparr> ''P1''
     = Inr (generateSessionId 7 ''0.k3jx'', \<lparr>items = Map.empty, readable = True, writable = True\<rparr>)
   \<and> getSessionId \<lparr>window_defined = False, now = 7, random36 = ''0.k3jx''\<rparr>
      \<lparr>items = Map.empty, readable = True, writable = True\<rparr> ''P1''
     \<noteq> getSessionId \<lparr>window_defined = False, now = 8, random36 = ''0.k3jx''\<rparr>
      \<lparr>items = Map.empty, readable = True, writable = True\<rparr> ''P1''"
  using getSessionId_no_window [of "\<lparr>window_defined = False, now = 7, random36 = ''0.k3jx''\<rparr>"
      "\<lparr>window_defined = False, now = 8, random36 = ''0.k3jx''\<rparr>"
      "\<lparr>items = Map.empty, readable = True, writable = True\<rparr>" "''P1''"]
  by auto

section \<open>History, requests and sending\<close>

lemma map_const_replicate: "map (\<lambda>x. c) xs = replicate (length xs) c"
  by (induction xs) simp_all

lemma dropWhile_self: "xs = [] \<or> \<not> P (hd xs) \<Longrightarrow> dropWhile P xs = xs"
  by (cases xs) auto

lemma trim_idem: "trim (trim s) = trim s"
proof -
  define a where "a = dropWhile is_ws s"
  define b where "b = rev (dropWhile is_ws (rev a))"
  have trim: "trim s = b" by (simp add: trim_def a_def b_def)
  have a: "a = [] \<or> \<not> is_ws (hd a)" unfolding a_def using hd_dropWhile [of is_ws s] by blast
  have last: "b = [] \<or> \<not> is_ws (hd (rev b))"
    unfolding b_def using hd_dropWhile [of is_ws "rev a"] by auto
  have "rev (takeWhile is_ws (rev a) @ dropWhile is_ws (rev a))
      = rev (dropWhile is_ws (rev a)) @ rev (takeWhile is_ws (rev a))"
    by (rule rev_append)
  then have "a = b @ rev (takeWhile is_ws (rev a))"
    by (simp only: takeWhile_dropWhile_id rev_rev_ident b_def)
  then have "b \<noteq> [] \<Longrightarrow> hd b = hd a" by (metis hd_append2)
  moreover have "b \<noteq> [] \<Longrightarrow> a \<noteq> []" unfolding b_def by auto
  ultimately have first: "b = [] \<or> \<not> is_ws (hd b)" using a by auto
  have "trim b = rev (dropWhile is_ws (rev b))"
    using dropWhile_self [of b is_ws] first by (simp add: trim_def)
  also have "\<dots> = rev (rev b)" using dropWhile_self [of "rev b" is_ws] last by auto
  finally show ?thesis using trim by simp
qed

text \<open>
  C4. When the backend answers the history request without success,
  \<^verbatim>\<open>getConversationHistory\<close> returns a result with an empty message list and no error;
  when it answers with success, the parsed history is returned as it is, in its order.
  The caller, \<^verbatim>\<open>loadConversationHistory\<close>, goes on without history in every case
  where there is none: it keeps its messages and clears the loading flag.
\<close>

theorem history_fetch:
  "getConversationHistory sid (Response False body) = Inr \<lparr>session_id = sid, history_messages = Some []\<rparr>
   \<and> getConversationHistory sid (Response True (Parsed h)) = Inr h
   \<and> loadConversationHistory sid (Response False body) st = st\<lparr>isLoadingHistory := False\<rparr>
   \<and> loadConversationHistory sid (Response True (Parsed \<lparr>session_id = s, history_messages = Some []\<rparr>)) st
       = st\<lparr>isLoadingHistory := False\<rparr>
   \<and> loadConversationHistory sid (Response True (Parsed \<lparr>session_id = s, history_messages = Some (m # ms)\<rparr>)) st
       = st\<lparr>messages := m # ms, isLoadingHistory := False\<rparr>
   \<and> loadConversationHistory sid Unreachable st = st\<lparr>isLoadingHistory := False\<rparr>
   \<and> loadConversationHistory sid (Response True Malformed) st = st\<lparr>isLoadingHistory := False\<rparr>"
  by (simp add: getConversationHistory_def loadConversationHistory_def)

text \<open>
  C8 fails on the code. Whatever the message, product, mode and non-empty session
  identifier, \<^verbatim>\<open>api.sendMessage\<close> names the session field \<^verbatim>\<open>session_id\<close> when images are
  attached and \<^verbatim>\<open>conversation_id\<close> when none is, and \<^verbatim>\<open>sendChatMessage\<close> always
  names it \<^verbatim>\<open>conversation_id\<close>.
\<close>

theorem session_field_names:
  "field_names (sendMessage msg m md (Files (f # fs)) (Some (c # cs)))
     = [''message'', ''model_id'', ''mode'', ''session_id''] @ replicate (Suc (length fs)) ''images''
   \<and> field_names (sendMessage msg m md (Files []) (Some (c # cs)))
     = [''message'', ''model_id'', ''mode'', ''conversation_id'']
   \<and> field_names (sendChatMessage p msg sid lang md imgs)
     = [''model_id'', ''message'', ''conversation_id'', ''mode'', ''language'']
       @ replicate (length imgs) ''images''"
  by (simp add: field_names_def sendMessage_def sendChatMessage_def map_const_replicate comp_def)

text \<open>
  C6, as the claim states it, fails on the product page while a request is in flight:
  the text is not empty and nothing is sent.
\<close>

theorem handleSendMessage_busy_counterexample:
  "trim ''hi'' \<noteq> []
   \<and> snd (handleSendMessage ((ui (page_mounted ''WM-100'' (Some ''s1'')))
             \<lparr>inputMessage := ''hi'', isSending := True\<rparr>)) = None"
  by (simp add: handleSendMessage_def page_mounted_def trim_def is_ws_def)

text \<open>
  C6, amended. On the product page a chat request is started if and only if the
  trimmed text is non-empty or an image is selected, and no request is in flight; in
  the chat widget a submit starts one if and only if the trimmed text is non-empty or an
  image is attached. With an image and no text, the request carries the empty message;
  with no text and no image nothing is sent.
\<close>

theorem submission_iff:
  "(snd (handleSendMessage st) \<noteq> None
      \<longleftrightarrow> (trim (inputMessage st) \<noteq> [] \<or> selectedImages st \<noteq> []) \<and> \<not> isSending st)
   \<and> (w_issued (widget_submit t s) \<noteq> w_issued s
      \<longleftrightarrow> trim (ci_message (winput s)) \<noteq> [] \<or> selectedImage (winput s) \<noteq> None)
   \<and> (trim (inputMessage st) = [] \<and> selectedImages st \<noteq> [] \<and> \<not> isSending st
      \<longrightarrow> snd (handleSendMessage st)
            = Some (sendMessage [] (modelId st) (mode st) (Files (selectedImages st)) (sessionId st)))
   \<and> (trim (inputMessage st) = [] \<and> selectedImages st = [] \<longrightarrow> snd (handleSendMessage st) = None)"
  by (auto simp: handleSendMessage_def Let_def widget_submit_def handleSubmit_def
      widget_handleSendMessage_def trim_idem)

theorem submission_iff_witness:
  "snd (handleSendMessage ((ui (page_mounted ''WM-100'' (Some ''s1'')))
          \<lparr>inputMessage := '' '',
           selectedImages := [\<lparr>file_name = ''a.png'', file_type = ''image/png'', file_size = 2048\<rparr>]\<rparr>))
     = Some (sendMessage [] ''WM-100'' PRE_PURCHASE
               (Files [\<lparr>file_name = ''a.png'', file_type = ''image/png'', file_size = 2048\<rparr>])
               (Some ''s1''))
   \<and> snd (handleSendMessage ((ui (page_mounted ''WM-100'' (Some ''s1''))) \<lparr>inputMessage := '' ''\<rparr>))
     = None
   \<and> snd (handleSendMessage ((ui (page_mounted ''WM-100'' (Some ''s1''))) \<lparr>inputMessage := ''hi''\<rparr>))
     \<noteq> None
   \<and> w_issued (widget_submit 5 ((widget_mounted ''P1'' ''s2'')
         \<lparr>winput := \<lparr>ci_message = ''hi'', selectedImage = None\<rparr>\<rparr>))
     \<noteq> w_issued ((widget_mounted ''P1'' ''s2'')
         \<lparr>winput := \<lparr>ci_message = ''hi'', selectedImage = None\<rparr>\<rparr>)"
  using submission_iff [of "(ui (page_mounted ''WM-100'' (Some ''s1'')))
          \<lparr>inputMessage := '' '',
           selectedImages := [\<lparr>file_name = ''a.png'', file_type = ''image/png'', file_size = 2048\<rparr>]\<rparr>"
      5 "(widget_mounted ''P1'' ''s2'') \<lparr>winput := \<lparr>ci_message = ''hi'', selectedImage = None\<rparr>\<rparr>"]
    submission_iff [of "(ui (page_mounted ''WM-100'' (Some ''s1''))) \<lparr>inputMessage := '' ''\<rparr>"
      5 "(widget_mounted ''P1'' ''s2'') \<lparr>winput := \<lparr>ci_message = ''hi'', selectedImage = None\<rparr>\<rparr>"]
    submission_iff [of "(ui (page_mounted ''WM-100'' (Some ''s1''))) \<lparr>inputMessage := ''hi''\<rparr>"
      5 "(widget_mounted ''P1'' ''s2'') \<lparr>winput := \<lparr>ci_message = ''hi'', selectedImage = None\<rparr>\<rparr>"]
  by (simp add: page_mounted_def widget_mounted_def trim_def is_ws_def)

section \<open>Selecting images\<close>






lemma handleImageSelect_isSending: "isSending (handleImageSelect rd files st) = isSending st"
  by (simp add: handleImageSelect_def handleImageSelect_sync_def handleImageSelect_then_def
      Let_def split: prod.splits)






section \<open>Runs of the product page\<close>

lemma handleSendMessage_cases:
  "handleSendMessage st = (st, None)
   \<or> (\<not> isSending st \<and> (\<exists>st'. handleSendMessage st =
          (st', Some (sendMessage (trim (inputMessage st)) (modelId st) (mode st)
                        (Files (selectedImages st)) (sessionId st)))
        \<and> isSending st' \<and> selectedImages st' = []))"
  by (simp add: handleSendMessage_def Let_def)

lemma one_in_flight_start_send: "one_in_flight s \<Longrightarrow> one_in_flight (start_send s)"
  using handleSendMessage_cases [of "ui s"]
  by (auto simp: one_in_flight_def start_send_def)

lemma one_in_flight_step: "one_in_flight s \<Longrightarrow> one_in_flight (page_step rd s ev)"
proof (cases ev)
  case (Reply fr)
  assume "one_in_flight s"
  with Reply show ?thesis
    by (cases "in_flight s") (auto simp: one_in_flight_def)
qed (auto simp: one_in_flight_start_send,
     auto simp: one_in_flight_def handleImageSelect_isSending handleRemoveImage_def
        handleModeSwitch_def)

lemma page_run_snoc: "page_run rd s (evs @ [ev]) = page_step rd (page_run rd s evs) ev"
  by (simp add: page_run_def)

lemma one_in_flight_run: "one_in_flight s \<Longrightarrow> one_in_flight (page_run rd s evs)"
proof (induction evs rule: rev_induct)
  case Nil
  then show ?case by (simp add: page_run_def)
next
  case (snoc ev evs)
  then show ?case by (simp only: page_run_snoc one_in_flight_step)
qed







section \<open>Runs of the chat widget\<close>

lemma widget_submit_cases:
  "w_in_flight (widget_submit t s) = w_in_flight s \<and> wui (widget_submit t s) = wui s
   \<or> (\<exists>req. w_in_flight (widget_submit t s) = w_in_flight s @ [req])
      \<and> isLoading (wui (widget_submit t s))"
  by (auto simp: widget_submit_def handleSubmit_def widget_handleSendMessage_def)

lemma widget_one_in_flight_submit:
  assumes "widget_one_in_flight s" and "\<not> isLoading (wui s)"
  shows "widget_one_in_flight (widget_submit t s)"
  using widget_submit_cases [of t s] assms by (auto simp: widget_one_in_flight_def)

lemma widget_one_in_flight_step:
  assumes "widget_one_in_flight s"
  shows "widget_one_in_flight (widget_step ce s ev)"
proof (cases ev)
  case (WEnter t)
  with assms widget_one_in_flight_submit [of s t] show ?thesis by simp
next
  case (WClick t)
  with assms widget_one_in_flight_submit [of s t] show ?thesis
    by (simp add: submit_disabled_def)
next
  case (WReply t fr)
  with assms show ?thesis
    by (cases "w_in_flight s") (auto simp: widget_one_in_flight_def)
qed (use assms in \<open>auto simp: widget_one_in_flight_def\<close>)

lemma widget_run_snoc:
  "widget_run ce s (evs @ [ev]) = widget_step ce (widget_run ce s evs) ev"
  by (simp add: widget_run_def)

lemma widget_one_in_flight_run:
  "widget_one_in_flight s \<Longrightarrow> widget_one_in_flight (widget_run ce s evs)"
proof (induction evs rule: rev_induct)
  case Nil
  then show ?case by (simp add: widget_run_def)
next
  case (snoc ev evs)
  then show ?case by (simp only: widget_run_snoc widget_one_in_flight_step)
qed

section \<open>One request at a time\<close>

lemma start_only_when_idle:
  assumes "one_in_flight s" and "issued (page_step rd s ev) \<noteq> issued s"
  shows "in_flight s = []"
proof (cases ev)
  case PressEnter
  with assms handleSendMessage_cases [of "ui s"] show ?thesis
    by (auto simp: start_send_def one_in_flight_def)
next
  case ClickSend
  with assms handleSendMessage_cases [of "ui s"] show ?thesis
    by (auto simp: start_send_def one_in_flight_def split: if_splits)
next
  case (Reply fr)
  with assms show ?thesis by (cases "in_flight s") auto
qed (use assms in auto)

lemma widget_start_only_when_idle:
  assumes "widget_one_in_flight s" and "w_issued (widget_step ce s ev) \<noteq> w_issued s"
  shows "w_in_flight s = []"
proof (cases ev)
  case (WEnter t)
  with assms show ?thesis by (auto simp: widget_one_in_flight_def split: if_splits)
next
  case (WClick t)
  with assms show ?thesis
    by (auto simp: widget_one_in_flight_def submit_disabled_def split: if_splits)
next
  case (WReply t fr)
  with assms show ?thesis by (cases "w_in_flight s") auto
qed (use assms in \<open>auto split: if_splits\<close>)

lemma one_in_flight_mounted: "one_in_flight (page_mounted m sid)"
  by (simp add: one_in_flight_def page_mounted_def)

lemma one_in_flight_session_step:
  assumes "one_in_flight (mounted s)" and "session_step rd s ev = Inr s'"
  shows "one_in_flight (mounted s')"
proof (cases ev)
  case (OnPage pev)
  with assms one_in_flight_step [of "mounted s" rd pev] show ?thesis by auto
next
  case (Reopen uuid)
  with assms show ?thesis
    by (auto simp: open_page_def one_in_flight_mounted split: sum.splits)
next
  case AbandonedReply
  with assms show ?thesis by (cases "abandoned s") auto
qed

lemma one_in_flight_session_run:
  assumes "one_in_flight (mounted s)" and "session_run rd s evs = Inr s'"
  shows "one_in_flight (mounted s')"
  using assms
proof (induction evs arbitrary: s)
  case Nil
  then show ?case by simp
next
  case (Cons ev evs)
  from Cons.prems(2) obtain s1 where step: "session_step rd s ev = Inr s1"
    and run: "session_run rd s1 evs = Inr s'"
    by (auto split: sum.splits)
  from one_in_flight_session_step [OF Cons.prems(1) step] run show ?case
    by (rule Cons.IH)
qed

lemma one_in_flight_session_opened:
  "session_opened uuid st m = Inr s \<Longrightarrow> one_in_flight (mounted s)"
  by (auto simp: session_opened_def open_page_def one_in_flight_mounted split: sum.splits)

lemma reopen_keeps_pending:
  assumes "session_step rd s (Reopen uuid) = Inr s'"
  shows "pending s' = pending s \<and> \<not> isSending (ui (mounted s')) \<and> in_flight (mounted s') = []"
  using assms
  by (auto simp: pending_def open_page_def page_mounted_def split: sum.splits)

text \<open>
  C7, as the claim states it, fails within one session: the flag that stops a second
  request belongs to one mount of the page, and leaving the page cancels nothing. The
  user sends a message, leaves the page while the request is in flight, opens the same
  product again (the stored session identifier is read back) and sends another message:
  two chat requests of the same session await their replies.
\<close>

theorem reopen_second_request_counterexample:
  "session_opened ''1b4e28ba-2fa1-41d2-883f-0016d3cca427''
       \<lparr>items = Map.empty, readable = True, writable = True\<rparr> ''WM-100''
     = Inr \<lparr>store = \<lparr>items = [''session_WM-100'' \<mapsto> ''1b4e28ba-2fa1-41d2-883f-0016d3cca427''],
                      readable = True, writable = True\<rparr>,
            mounted = page_mounted ''WM-100'' (Some ''1b4e28ba-2fa1-41d2-883f-0016d3cca427''),
            abandoned = []\<rparr>
   \<and> (case session_run (\<lambda>f. file_name f)
         \<lparr>store = \<lparr>items = [''session_WM-100'' \<mapsto> ''1b4e28ba-2fa1-41d2-883f-0016d3cca427''],
                   readable = True, writable = True\<rparr>,
          mounted = page_mounted ''WM-100'' (Some ''1b4e28ba-2fa1-41d2-883f-0016d3cca427''),
          abandoned = []\<rparr>
         [OnPage (TypeText ''hi''), OnPage PressEnter,
          Reopen ''9f0c2d4e-7a61-4b3c-8d25-5e6f7a8b9c0d'',
          OnPage (TypeText ''again''), OnPage PressEnter] of
        Inl err \<Rightarrow> []
      | Inr s \<Rightarrow> pending s)
     = [sendMessage ''hi'' ''WM-100'' PRE_PURCHASE (Files [])
          (Some ''1b4e28ba-2fa1-41d2-883f-0016d3cca427''),
        sendMessage ''again'' ''WM-100'' PRE_PURCHASE (Files [])
          (Some ''1b4e28ba-2fa1-41d2-883f-0016d3cca427'')]"
  by (simp add: session_opened_def open_page_def initSession_def getItem_def setItem_def
      page_mounted_def pending_def start_send_def handleSendMessage_def trim_def is_ws_def Let_def)

text \<open>
  C7, amended. Within one mount of the chat, while a chat request is in flight no second
  one is started. On the product page the send handler returns without sending and the
  send button is disabled; along every sequence of events of one mount at most one
  request awaits its reply, and a request is started only when none does. The same
  holds for the mount in place after any number of reopenings. Reopening the page
  cancels no pending request and starts with the sending flag off. In the chat widget
  the text area and the submit button are disabled while a request is in flight, a key
  or a click then changes nothing, at most one request of a mount awaits its reply, and
  a request is started only when none does.
\<close>

theorem sends_serialized:
  "(isSending st \<longrightarrow> handleSendMessage st = (st, None) \<and> send_disabled st)
   \<and> length (in_flight (page_run rd (page_mounted m sid) evs)) \<le> 1
   \<and> (issued (page_step rd (page_run rd (page_mounted m sid) evs) ev)
          \<noteq> issued (page_run rd (page_mounted m sid) evs)
        \<longrightarrow> in_flight (page_run rd (page_mounted m sid) evs) = [])
   \<and> (session_opened uuid sto m = Inr s0 \<and> session_run rd s0 sevs = Inr s1
        \<longrightarrow> length (in_flight (mounted s1)) \<le> 1)
   \<and> (session_step rd s (Reopen uuid') = Inr s'
        \<longrightarrow> pending s' = pending s \<and> \<not> isSending (ui (mounted s')))
   \<and> (isLoading (wui ws) \<longrightarrow>
        submit_disabled (isLoading (wui ws)) (winput ws)
        \<and> widget_step ce ws (WEnter t) = ws \<and> widget_step ce ws (WClick t) = ws)
   \<and> length (w_in_flight (widget_run ce (widget_mounted p wsid) wevs)) \<le> 1
   \<and> (w_issued (widget_step ce (widget_run ce (widget_mounted p wsid) wevs) wev)
          \<noteq> w_issued (widget_run ce (widget_mounted p wsid) wevs)
        \<longrightarrow> w_in_flight (widget_run ce (widget_mounted p wsid) wevs) = [])"
proof (intro conjI impI)
  assume "isSending st"
  then show "handleSendMessage st = (st, None)" by (simp add: handleSendMessage_def)
next
  assume "isSending st"
  then show "send_disabled st" by (simp add: send_disabled_def)
next
  from one_in_flight_run [OF one_in_flight_mounted]
  show "length (in_flight (page_run rd (page_mounted m sid) evs)) \<le> 1"
    by (simp add: one_in_flight_def)
next
  assume "issued (page_step rd (page_run rd (page_mounted m sid) evs) ev)
          \<noteq> issued (page_run rd (page_mounted m sid) evs)"
  with one_in_flight_run [OF one_in_flight_mounted]
  show "in_flight (page_run rd (page_mounted m sid) evs) = []"
    by (rule start_only_when_idle)
next
  assume "session_opened uuid sto m = Inr s0 \<and> session_run rd s0 sevs = Inr s1"
  then have "one_in_flight (mounted s1)"
    using one_in_flight_session_run [OF one_in_flight_session_opened] by blast
  then show "length (in_flight (mounted s1)) \<le> 1" by (simp add: one_in_flight_def)
next
  assume "session_step rd s (Reopen uuid') = Inr s'"
  then show "pending s' = pending s" by (simp add: reopen_keeps_pending)
next
  assume "session_step rd s (Reopen uuid') = Inr s'"
  then show "\<not> isSending (ui (mounted s'))" by (simp add: reopen_keeps_pending)
next
  assume "isLoading (wui ws)"
  then show "submit_disabled (isLoading (wui ws)) (winput ws)" by (simp add: submit_disabled_def)
next
  assume "isLoading (wui ws)"
  then show "widget_step ce ws (WEnter t) = ws" by simp
next
  assume "isLoading (wui ws)"
  then show "widget_step ce ws (WClick t) = ws" by (simp add: submit_disabled_def)
next
  have "widget_one_in_flight (widget_mounted p wsid)"
    by (simp add: widget_one_in_flight_def widget_mounted_def)
  from widget_one_in_flight_run [OF this]
  show "length (w_in_flight (widget_run ce (widget_mounted p wsid) wevs)) \<le> 1"
    by (simp add: widget_one_in_flight_def)
next
  assume changed: "w_issued (widget_step ce (widget_run ce (widget_mounted p wsid) wevs) wev)
          \<noteq> w_issued (widget_run ce (widget_mounted p wsid) wevs)"
  have "widget_one_in_flight (widget_mounted p wsid)"
    by (simp add: widget_one_in_flight_def widget_mounted_def)
  from widget_one_in_flight_run [OF this] changed
  show "w_in_flight (widget_run ce (widget_mounted p wsid) wevs) = []"
    by (rule widget_start_only_when_idle)
qed

theorem sends_serialized_witness:
  "handleSendMessage ((ui (page_mounted ''WM-100'' (Some ''1b4e28ba-2fa1-41d2-883f-0016d3cca427'')))\<lparr>inputMessage := ''hi'', isSending := True\<rparr>) = ((ui (page_mounted ''WM-100'' (Some ''1b4e28ba-2fa1-41d2-883f-0016d3cca427'')))\<lparr>inputMessage := ''hi'', isSending := True\<rparr>, None)
   \<and> send_disabled ((ui (page_mounted ''WM-100'' (Some ''1b4e28ba-2fa1-41d2-883f-0016d3cca427'')))\<lparr>inputMessage := ''hi'', isSending := True\<rparr>)
   \<and> issued (page_run (\<lambda>f. file_name f) (page_mounted ''WM-100'' (Some ''1b4e28ba-2fa1-41d2-883f-0016d3cca427'')) [TypeText ''hi'', PressEnter]) = [sendMessage ''hi'' ''WM-100'' PRE_PURCHASE (Files []) (Some ''1b4e28ba-2fa1-41d2-883f-0016d3cca427'')]
   \<and> in_flight (page_run (\<lambda>f. file_name f) (page_mounted ''WM-100'' (Some ''1b4e28ba-2fa1-41d2-883f-0016d3cca427'')) [TypeText ''hi'']) = []
   \<and> session_run (\<lambda>f. file_name f) (\<lparr>store = \<lparr>items = [''session_WM-100'' \<mapsto> ''1b4e28ba-2fa1-41d2-883f-0016d3cca427''], readable = True, writable = True\<rparr>,
        mounted = page_mounted ''WM-100'' (Some ''1b4e28ba-2fa1-41d2-883f-0016d3cca427''),
        abandoned = []\<rparr>)
         [OnPage (TypeText ''hi''), OnPage PressEnter, Reopen ''9f0c2d4e-7a61-4b3c-8d25-5e6f7a8b9c0d''] = Inr (\<lparr>store = \<lparr>items = [''session_WM-100'' \<mapsto> ''1b4e28ba-2fa1-41d2-883f-0016d3cca427''], readable = True, writable = True\<rparr>,
        mounted = page_mounted ''WM-100'' (Some ''1b4e28ba-2fa1-41d2-883f-0016d3cca427''),
        abandoned = [sendMessage ''hi'' ''WM-100'' PRE_PURCHASE (Files []) (Some ''1b4e28ba-2fa1-41d2-883f-0016d3cca427'')]\<rparr>)
   \<and> length (in_flight (mounted (\<lparr>store = \<lparr>items = [''session_WM-100'' \<mapsto> ''1b4e28ba-2fa1-41d2-883f-0016d3cca427''], readable = True, writable = True\<rparr>,
        mounted = page_mounted ''WM-100'' (Some ''1b4e28ba-2fa1-41d2-883f-0016d3cca427''),
        abandoned = [sendMessage ''hi'' ''WM-100'' PRE_PURCHASE (Files []) (Some ''1b4e28ba-2fa1-41d2-883f-0016d3cca427'')]\<rparr>))) \<le> 1
   \<and> pending (\<lparr>store = \<lparr>items = [''session_WM-100'' \<mapsto> ''1b4e28ba-2fa1-41d2-883f-0016d3cca427''], readable = True, writable = True\<rparr>,
        mounted = page_mounted ''WM-100'' (Some ''1b4e28ba-2fa1-41d2-883f-0016d3cca427''),
        abandoned = [sendMessage ''hi'' ''WM-100'' PRE_PURCHASE (Files []) (Some ''1b4e28ba-2fa1-41d2-883f-0016d3cca427'')]\<rparr>) = [sendMessage ''hi'' ''WM-100'' PRE_PURCHASE (Files []) (Some ''1b4e28ba-2fa1-41d2-883f-0016d3cca427'')]
   \<and> widget_step ''error'' ((widget_mounted ''P1'' ''s2'')\<lparr>wui := (wui (widget_mounted ''P1'' ''s2''))\<lparr>isLoading := True\<rparr>, winput := \<lparr>ci_message = ''hi'', selectedImage = None\<rparr>\<rparr>) (WClick 5) = (widget_mounted ''P1'' ''s2'')\<lparr>wui := (wui (widget_mounted ''P1'' ''s2''))\<lparr>isLoading := True\<rparr>, winput := \<lparr>ci_message = ''hi'', selectedImage = None\<rparr>\<rparr>
   \<and> w_in_flight (widget_run ''error'' (widget_mounted ''P1'' ''s2'') [WType ''hi'']) = []"
proof -
  note inst = sends_serialized [of "(ui (page_mounted ''WM-100'' (Some ''1b4e28ba-2fa1-41d2-883f-0016d3cca427'')))\<lparr>inputMessage := ''hi'', isSending := True\<rparr>" "\<lambda>f. file_name f" "''WM-100''" "Some ''1b4e28ba-2fa1-41d2-883f-0016d3cca427''"
      "[TypeText ''hi'']" PressEnter "''1b4e28ba-2fa1-41d2-883f-0016d3cca427''"
      "\<lparr>items = Map.empty, readable = True, writable = True\<rparr>"
      "\<lparr>store = \<lparr>items = [''session_WM-100'' \<mapsto> ''1b4e28ba-2fa1-41d2-883f-0016d3cca427''], readable = True, writable = True\<rparr>,
        mounted = page_mounted ''WM-100'' (Some ''1b4e28ba-2fa1-41d2-883f-0016d3cca427''),
        abandoned = []\<rparr>"
      "[OnPage (TypeText ''hi''), OnPage PressEnter, Reopen ''9f0c2d4e-7a61-4b3c-8d25-5e6f7a8b9c0d'']"
      "\<lparr>store = \<lparr>items = [''session_WM-100'' \<mapsto> ''1b4e28ba-2fa1-41d2-883f-0016d3cca427''], readable = True, writable = True\<rparr>,
        mounted = page_mounted ''WM-100'' (Some ''1b4e28ba-2fa1-41d2-883f-0016d3cca427''),
        abandoned = [sendMessage ''hi'' ''WM-100'' PRE_PURCHASE (Files []) (Some ''1b4e28ba-2fa1-41d2-883f-0016d3cca427'')]\<rparr>"
      "\<lparr>store = \<lparr>items = [''session_WM-100'' \<mapsto> ''1b4e28ba-2fa1-41d2-883f-0016d3cca427''], readable = True, writable = True\<rparr>,
        mounted = page_run (\<lambda>f. file_name f) (page_mounted ''WM-100'' (Some ''1b4e28ba-2fa1-41d2-883f-0016d3cca427'')) [TypeText ''hi'', PressEnter],
        abandoned = []\<rparr>" "''9f0c2d4e-7a61-4b3c-8d25-5e6f7a8b9c0d''" "\<lparr>store = \<lparr>items = [''session_WM-100'' \<mapsto> ''1b4e28ba-2fa1-41d2-883f-0016d3cca427''], readable = True, writable = True\<rparr>,
        mounted = page_mounted ''WM-100'' (Some ''1b4e28ba-2fa1-41d2-883f-0016d3cca427''),
        abandoned = [sendMessage ''hi'' ''WM-100'' PRE_PURCHASE (Files []) (Some ''1b4e28ba-2fa1-41d2-883f-0016d3cca427'')]\<rparr>"
      "(widget_mounted ''P1'' ''s2'')\<lparr>wui := (wui (widget_mounted ''P1'' ''s2''))\<lparr>isLoading := True\<rparr>, winput := \<lparr>ci_message = ''hi'', selectedImage = None\<rparr>\<rparr>" "''error''" 5 "''P1''" "''s2''" "[WType ''hi'']" "WEnter 5"]
  have run: "page_run (\<lambda>f. file_name f) (page_mounted ''WM-100'' (Some ''1b4e28ba-2fa1-41d2-883f-0016d3cca427'')) [TypeText ''hi'', PressEnter]
      = \<lparr>ui = (ui (page_mounted ''WM-100'' (Some ''1b4e28ba-2fa1-41d2-883f-0016d3cca427'')))
              \<lparr>messages := [\<lparr>role = ''user'', content = ''hi'', msg_previews = []\<rparr>],
               isSending := True\<rparr>,
         in_flight = [sendMessage ''hi'' ''WM-100'' PRE_PURCHASE (Files []) (Some ''1b4e28ba-2fa1-41d2-883f-0016d3cca427'')], issued = [sendMessage ''hi'' ''WM-100'' PRE_PURCHASE (Files []) (Some ''1b4e28ba-2fa1-41d2-883f-0016d3cca427'')]\<rparr>"
    by (simp add: page_run_def page_mounted_def start_send_def handleSendMessage_def trim_def
        is_ws_def Let_def)
  have before: "issued (page_run (\<lambda>f. file_name f) (page_mounted ''WM-100'' (Some ''1b4e28ba-2fa1-41d2-883f-0016d3cca427'')) [TypeText ''hi'']) = []"
    by (simp add: page_run_def page_mounted_def)
  have step: "page_step (\<lambda>f. file_name f) (page_run (\<lambda>f. file_name f) (page_mounted ''WM-100'' (Some ''1b4e28ba-2fa1-41d2-883f-0016d3cca427'')) [TypeText ''hi'']) PressEnter
      = page_run (\<lambda>f. file_name f) (page_mounted ''WM-100'' (Some ''1b4e28ba-2fa1-41d2-883f-0016d3cca427'')) [TypeText ''hi'', PressEnter]"
    by (simp add: page_run_def)
  have opened: "session_opened ''1b4e28ba-2fa1-41d2-883f-0016d3cca427'' \<lparr>items = Map.empty, readable = True, writable = True\<rparr> ''WM-100''
      = Inr (\<lparr>store = \<lparr>items = [''session_WM-100'' \<mapsto> ''1b4e28ba-2fa1-41d2-883f-0016d3cca427''], readable = True, writable = True\<rparr>,
        mounted = page_mounted ''WM-100'' (Some ''1b4e28ba-2fa1-41d2-883f-0016d3cca427''),
        abandoned = []\<rparr>)"
    by (simp add: session_opened_def open_page_def initSession_def getItem_def setItem_def)
  have reopen: "session_step (\<lambda>f. file_name f) (\<lparr>store = \<lparr>items = [''session_WM-100'' \<mapsto> ''1b4e28ba-2fa1-41d2-883f-0016d3cca427''], readable = True, writable = True\<rparr>,
        mounted = page_run (\<lambda>f. file_name f) (page_mounted ''WM-100'' (Some ''1b4e28ba-2fa1-41d2-883f-0016d3cca427'')) [TypeText ''hi'', PressEnter],
        abandoned = []\<rparr>) (Reopen ''9f0c2d4e-7a61-4b3c-8d25-5e6f7a8b9c0d'') = Inr (\<lparr>store = \<lparr>items = [''session_WM-100'' \<mapsto> ''1b4e28ba-2fa1-41d2-883f-0016d3cca427''], readable = True, writable = True\<rparr>,
        mounted = page_mounted ''WM-100'' (Some ''1b4e28ba-2fa1-41d2-883f-0016d3cca427''),
        abandoned = [sendMessage ''hi'' ''WM-100'' PRE_PURCHASE (Files []) (Some ''1b4e28ba-2fa1-41d2-883f-0016d3cca427'')]\<rparr>)"
    by (simp only: run) (simp add: open_page_def initSession_def getItem_def setItem_def page_mounted_def)
  have srun: "session_run (\<lambda>f. file_name f) (\<lparr>store = \<lparr>items = [''session_WM-100'' \<mapsto> ''1b4e28ba-2fa1-41d2-883f-0016d3cca427''], readable = True, writable = True\<rparr>,
        mounted = page_mounted ''WM-100'' (Some ''1b4e28ba-2fa1-41d2-883f-0016d3cca427''),
        abandoned = []\<rparr>)
         [OnPage (TypeText ''hi''), OnPage PressEnter, Reopen ''9f0c2d4e-7a61-4b3c-8d25-5e6f7a8b9c0d''] = Inr (\<lparr>store = \<lparr>items = [''session_WM-100'' \<mapsto> ''1b4e28ba-2fa1-41d2-883f-0016d3cca427''], readable = True, writable = True\<rparr>,
        mounted = page_mounted ''WM-100'' (Some ''1b4e28ba-2fa1-41d2-883f-0016d3cca427''),
        abandoned = [sendMessage ''hi'' ''WM-100'' PRE_PURCHASE (Files []) (Some ''1b4e28ba-2fa1-41d2-883f-0016d3cca427'')]\<rparr>)"
    using reopen by (simp add: page_run_def)
  have wbefore: "w_issued (widget_run ''error'' (widget_mounted ''P1'' ''s2'') [WType ''hi'']) = []"
    by (simp add: widget_run_def widget_mounted_def)
  have wafter: "w_issued (widget_step ''error''
        (widget_run ''error'' (widget_mounted ''P1'' ''s2'') [WType ''hi'']) (WEnter 5)) \<noteq> []"
    by (simp add: widget_run_def widget_mounted_def widget_submit_def handleSubmit_def
        widget_handleSendMessage_def trim_def is_ws_def)
  from inst have "handleSendMessage ((ui (page_mounted ''WM-100'' (Some ''1b4e28ba-2fa1-41d2-883f-0016d3cca427'')))\<lparr>inputMessage := ''hi'', isSending := True\<rparr>) = ((ui (page_mounted ''WM-100'' (Some ''1b4e28ba-2fa1-41d2-883f-0016d3cca427'')))\<lparr>inputMessage := ''hi'', isSending := True\<rparr>, None) \<and> send_disabled ((ui (page_mounted ''WM-100'' (Some ''1b4e28ba-2fa1-41d2-883f-0016d3cca427'')))\<lparr>inputMessage := ''hi'', isSending := True\<rparr>)"
    by (simp add: page_mounted_def)
  moreover from inst step run before
  have "in_flight (page_run (\<lambda>f. file_name f) (page_mounted ''WM-100'' (Some ''1b4e28ba-2fa1-41d2-883f-0016d3cca427'')) [TypeText ''hi'']) = []"
    by simp
  moreover from inst opened srun have "length (in_flight (mounted (\<lparr>store = \<lparr>items = [''session_WM-100'' \<mapsto> ''1b4e28ba-2fa1-41d2-883f-0016d3cca427''], readable = True, writable = True\<rparr>,
        mounted = page_mounted ''WM-100'' (Some ''1b4e28ba-2fa1-41d2-883f-0016d3cca427''),
        abandoned = [sendMessage ''hi'' ''WM-100'' PRE_PURCHASE (Files []) (Some ''1b4e28ba-2fa1-41d2-883f-0016d3cca427'')]\<rparr>))) \<le> 1"
    by blast
  moreover from inst reopen have "pending (\<lparr>store = \<lparr>items = [''session_WM-100'' \<mapsto> ''1b4e28ba-2fa1-41d2-883f-0016d3cca427''], readable = True, writable = True\<rparr>,
        mounted = page_mounted ''WM-100'' (Some ''1b4e28ba-2fa1-41d2-883f-0016d3cca427''),
        abandoned = [sendMessage ''hi'' ''WM-100'' PRE_PURCHASE (Files []) (Some ''1b4e28ba-2fa1-41d2-883f-0016d3cca427'')]\<rparr>) = pending (\<lparr>store = \<lparr>items = [''session_WM-100'' \<mapsto> ''1b4e28ba-2fa1-41d2-883f-0016d3cca427''], readable = True, writable = True\<rparr>,
        mounted = page_run (\<lambda>f. file_name f) (page_mounted ''WM-100'' (Some ''1b4e28ba-2fa1-41d2-883f-0016d3cca427'')) [TypeText ''hi'', PressEnter],
        abandoned = []\<rparr>)"
    by blast
  then have "pending (\<lparr>store = \<lparr>items = [''session_WM-100'' \<mapsto> ''1b4e28ba-2fa1-41d2-883f-0016d3cca427''], readable = True, writable = True\<rparr>,
        mounted = page_mounted ''WM-100'' (Some ''1b4e28ba-2fa1-41d2-883f-0016d3cca427''),
        abandoned = [sendMessage ''hi'' ''WM-100'' PRE_PURCHASE (Files []) (Some ''1b4e28ba-2fa1-41d2-883f-0016d3cca427'')]\<rparr>) = [sendMessage ''hi'' ''WM-100'' PRE_PURCHASE (Files []) (Some ''1b4e28ba-2fa1-41d2-883f-0016d3cca427'')]" by (simp add: pending_def run)
  moreover from inst have "widget_step ''error'' ((widget_mounted ''P1'' ''s2'')\<lparr>wui := (wui (widget_mounted ''P1'' ''s2''))\<lparr>isLoading := True\<rparr>, winput := \<lparr>ci_message = ''hi'', selectedImage = None\<rparr>\<rparr>) (WClick 5) = (widget_mounted ''P1'' ''s2'')\<lparr>wui := (wui (widget_mounted ''P1'' ''s2''))\<lparr>isLoading := True\<rparr>, winput := \<lparr>ci_message = ''hi'', selectedImage = None\<rparr>\<rparr>"
    by (simp add: widget_mounted_def)
  moreover from inst wbefore wafter
  have "w_in_flight (widget_run ''error'' (widget_mounted ''P1'' ''s2'') [WType ''hi'']) = []"
    by simp
  ultimately show ?thesis using run srun by simp
qed

text \<open>A run of the page: the second Enter comes while the first request is in flight.\<close>

lemma in_flight_example:
  "length (in_flight (page_run (\<lambda>f. file_name f) (page_mounted ''WM-100'' (Some ''s1''))
         [TypeText ''hi'', PressEnter, TypeText ''again'', PressEnter])) = 1"
  by (simp add: page_run_def page_mounted_def start_send_def handleSendMessage_def trim_def
      is_ws_def Let_def)

section \<open>Images of a request\<close>




text \<open>
  The slots are counted when the files are chosen and the files are added when their
  previews are ready: two selections whose previews are both still being read both see
  the old count.
\<close>

lemma handleImageSelect_overlap:
  "handleImageSelect_sync
      [\<lparr>file_name = ''a.png'', file_type = ''image/png'', file_size = 2048\<rparr>,
       \<lparr>file_name = ''b.png'', file_type = ''image/png'', file_size = 2048\<rparr>]
      (ui (page_mounted ''WM-100'' (Some ''s1'')))
     = (ui (page_mounted ''WM-100'' (Some ''s1'')),
        Some [\<lparr>file_name = ''a.png'', file_type = ''image/png'', file_size = 2048\<rparr>,
              \<lparr>file_name = ''b.png'', file_type = ''image/png'', file_size = 2048\<rparr>])
   \<and> length (selectedImages
        (handleImageSelect_then rd
           [\<lparr>file_name = ''a.png'', file_type = ''image/png'', file_size = 2048\<rparr>,
            \<lparr>file_name = ''b.png'', file_type = ''image/png'', file_size = 2048\<rparr>]
           (handleImageSelect_then rd
              [\<lparr>file_name = ''a.png'', file_type = ''image/png'', file_size = 2048\<rparr>,
               \<lparr>file_name = ''b.png'', file_type = ''image/png'', file_size = 2048\<rparr>]
              (ui (page_mounted ''WM-100'' (Some ''s1'')))))) = 4"
  by (simp add: handleImageSelect_sync_def handleImageSelect_then_def page_mounted_def
      MAX_IMAGES_def startsWith_def)




text \<open>
  The reason the product page sets for a rejected file does not stay: the callback that
  adds the valid files clears the error, also when no file was valid.
\<close>

lemma reason_cleared:
  assumes "files \<noteq> []" and "length (selectedImages st) < 3"
  shows "uploadError (handleImageSelect rd files st) = None"
  using assms
  by (simp add: handleImageSelect_def handleImageSelect_sync_def handleImageSelect_then_def
      MAX_IMAGES_def Let_def split: prod.splits)

lemma reason_set_then_cleared:
  "uploadError (fst (handleImageSelect_sync
       [\<lparr>file_name = ''m.pdf'', file_type = ''application/pdf'', file_size = 2048\<rparr>]
       (ui (page_mounted ''WM-100'' (Some ''s1'')))))
     = Some ''Only images are allowed (PNG, JPG, JPEG, WEBP)''
   \<and> uploadError (handleImageSelect rd
       [\<lparr>file_name = ''m.pdf'', file_type = ''application/pdf'', file_size = 2048\<rparr>]
       (ui (page_mounted ''WM-100'' (Some ''s1'')))) = None"
  by (simp add: handleImageSelect_def handleImageSelect_sync_def handleImageSelect_then_def
      page_mounted_def MAX_IMAGES_def startsWith_def)

end
